theory Spec2Isabelle
  imports Complex_Main
begin

section \<open>JavaScript values\<close>

text \<open>
  A JavaScript number is NaN, an infinity or a finite double. The code below only tests
  numbers for truthiness and compares them with \<open>a > b\<close>, so a finite double is
  represented by the real number it denotes.
\<close>

datatype jsnum = NaN | NegInf | Num real | PosInf

text \<open>\<open>a > b\<close> on numbers: false as soon as one side is NaN.\<close>

fun js_gt :: "jsnum \<Rightarrow> jsnum \<Rightarrow> bool" where
  "js_gt NaN _ = False"
| "js_gt _ NaN = False"
| "js_gt NegInf _ = False"
| "js_gt _ PosInf = False"
| "js_gt PosInf _ = True"
| "js_gt _ NegInf = True"
| "js_gt (Num a) (Num b) = (b < a)"

fun truthy_num :: "jsnum \<Rightarrow> bool" where
  "truthy_num NaN = False"
| "truthy_num (Num x) = (x \<noteq> 0)"
| "truthy_num _ = True"

text \<open>
  Values: primitives, arrays and plain objects. An object is the ordered list of its own
  properties. \<open>JDateUTC\<close> is the object \<open>new Date(Date.UTC(y, m, d, h, mi, s))\<close> built by
  the reviver of \<open>find\<close>; it keeps the six arguments (the seconds as the matched text).
\<close>

datatype jv =
    JUndef
  | JNull
  | JBool bool
  | JNum jsnum
  | JStr string
  | JDateUTC nat int nat nat nat string
  | JArr "jv list"
  | JObj "(string \<times> jv) list"

type_synonym obj = "(string \<times> jv) list"

fun truthy :: "jv \<Rightarrow> bool" where
  "truthy JUndef = False"
| "truthy JNull = False"
| "truthy (JBool b) = b"
| "truthy (JNum n) = truthy_num n"
| "truthy (JStr s) = (s \<noteq> [])"
| "truthy _ = True"

text \<open>\<open>o[k]\<close> on an object literal: the own property, or undefined.\<close>

definition getProp :: "obj \<Rightarrow> string \<Rightarrow> jv" where
  "getProp ob k = (case map_of ob k of None \<Rightarrow> JUndef | Some v \<Rightarrow> v)"

text \<open>
  \<open>o[k] = v\<close>: an existing property keeps its place, a new one goes last. (The engine
  lists a key that is an array index before the others; nothing below depends on the
  order of the keys of a result.)
\<close>

fun setProp :: "string \<Rightarrow> 'v \<Rightarrow> (string \<times> 'v) list \<Rightarrow> (string \<times> 'v) list" where
  "setProp k v [] = [(k, v)]"
| "setProp k v (p # ps) = (if fst p = k then (k, v) # ps else p # setProp k v ps)"

text \<open>The errors the library raises (package common-errors), and the engine's own TypeError.\<close>

datatype error =
    ArgumentNullError string
  | TypeError string
  | ArgumentError string
  | RangeError string
  | NotSupportedError string
  | GenericError string
  | FileNotFoundError string
  | SyntaxError string
  | NativeTypeError string

section \<open>getFilter\<close>

subsection \<open>The type-tag pattern \<open>/(.+)\((.+)\)/\<close>\<close>

text \<open>
  \<open>.\<close> matches any character but a line terminator. Strings are lists of 8-bit
  characters here, so the terminators are line feed and carriage return.
\<close>

definition isLineTerminator :: "char \<Rightarrow> bool" where
  "isLineTerminator c = (c = CHR 0x0A \<or> c = CHR 0x0D)"

definition dotRun :: "string \<Rightarrow> nat" where
  "dotRun s = length (takeWhile (\<lambda>c. \<not> isLineTerminator c) s)"

text \<open>
  A greedy \<open>.+\<close> followed by the rest of the pattern: the longest run first, then one
  character less at a time, down to one character.
\<close>

fun tryLens :: "(nat \<Rightarrow> 'a option) \<Rightarrow> nat \<Rightarrow> 'a option" where
  "tryLens f 0 = None"
| "tryLens f (Suc n) = (case f (Suc n) of Some r \<Rightarrow> Some r | None \<Rightarrow> tryLens f n)"

text \<open>After group 2 of length \<open>l2\<close> the next character must be \<open>)\<close>.\<close>

definition closeAt :: "string \<Rightarrow> string \<Rightarrow> nat \<Rightarrow> (string \<times> string) option" where
  "closeAt g1 rest l2 =
     (case drop l2 rest of
        [] \<Rightarrow> None
      | d # _ \<Rightarrow> if d = CHR '')'' then Some (g1, take l2 rest) else None)"

text \<open>After group 1 of length \<open>l1\<close> the next character must be \<open>(\<close>; then group 2.\<close>

definition openAt :: "string \<Rightarrow> nat \<Rightarrow> (string \<times> string) option" where
  "openAt s l1 =
     (case drop l1 s of
        [] \<Rightarrow> None
      | c # rest \<Rightarrow>
          if c = CHR ''('' then tryLens (closeAt (take l1 s) rest) (dotRun rest) else None)"

definition matchAt :: "string \<Rightarrow> (string \<times> string) option" where
  "matchAt s = tryLens (openAt s) (dotRun s)"

text \<open>\<open>item.match(...)\<close>: the leftmost start that matches; the result is (match[1], match[2]).\<close>

fun matchTyped :: "string \<Rightarrow> (string \<times> string) option" where
  "matchTyped [] = None"
| "matchTyped (c # cs) =
     (case matchAt (c # cs) of Some r \<Rightarrow> Some r | None \<Rightarrow> matchTyped cs)"

subsection \<open>Casting one alternative\<close>

definition isHexDigit :: "char \<Rightarrow> bool" where
  "isHexDigit c = (c \<in> set ''abcdefABCDEF0123456789'')"

text \<open>\<open>/^[a-fA-F0-9]{24}$/.test(paramValue)\<close>\<close>

definition isObjectId :: "string \<Rightarrow> bool" where
  "isObjectId v = (length v = 24 \<and> list_all isHexDigit v)"

text \<open>
  The callback of \<open>options[paramName].map\<close>: the field name to query, or \<open>None\<close> for
  null. \<open>validDate v\<close> stands for \<open>!isNaN(+new Date(v))\<close>, which the engine decides.
\<close>

definition castField :: "(string \<Rightarrow> bool) \<Rightarrow> string \<Rightarrow> string \<Rightarrow> string option" where
  "castField validDate paramValue item =
     (case matchTyped item of
        None \<Rightarrow> Some item
      | Some (type, name) \<Rightarrow>
          if type = ''ObjectId'' then
            (if \<not> isObjectId paramValue then None else Some name)
          else if type = ''Date'' then
            (if \<not> validDate paramValue then None else Some name)
          else None)"

text \<open>\<open>.filter(function (item) { return (item !== null); })\<close>\<close>

fun dropNulls :: "'a option list \<Rightarrow> 'a list" where
  "dropNulls [] = []"
| "dropNulls (None # xs) = dropNulls xs"
| "dropNulls (Some x # xs) = x # dropNulls xs"

definition castFields :: "(string \<Rightarrow> bool) \<Rightarrow> string \<Rightarrow> string list \<Rightarrow> string list" where
  "castFields validDate paramValue items = dropNulls (map (castField validDate paramValue) items)"

subsection \<open>The loop over the parameters and the composition\<close>

text \<open>
  \<open>optionsParser(opts).makeArray(true)\<close> comes from the package lackey-options-parser;
  its result is taken as given: the logical parameter names in the order of \<open>getKeys()\<close>,
  each with its array of alternative target expressions. \<open>req.params\<close> maps a name to a
  string, or to nothing (undefined).
\<close>

type_synonym options = "(string \<times> string list) list"
type_synonym params = "string \<Rightarrow> string option"

text \<open>The \<open>{field: paramValue}\<close> objects pushed onto \<open>filters\<close>.\<close>

definition fieldFilters :: "string \<Rightarrow> string list \<Rightarrow> jv list" where
  "fieldFilters paramValue fields = map (\<lambda>field. JObj [(field, JStr paramValue)]) fields"

text \<open>One turn of \<open>paramNames.forEach\<close>, on the state \<open>(filter, $orFilters)\<close>.\<close>

fun paramStep ::
  "(string \<Rightarrow> bool) \<Rightarrow> params \<Rightarrow> obj \<times> jv list list \<Rightarrow> string \<times> string list
     \<Rightarrow> error + obj \<times> jv list list" where
  "paramStep validDate ps (flt, orFilters) (paramName, items) =
     (case ps paramName of
        None \<Rightarrow> Inl (ArgumentNullError paramName)
      | Some paramValue \<Rightarrow>
          if paramValue = [] then Inl (ArgumentNullError paramName)
          else
            let fields = castFields validDate paramValue items in
            if length fields = 0 then Inl (TypeError paramName)
            else if length fields = 1 then
              Inr (setProp (fields ! 0) (JStr paramValue) flt, orFilters)
            else Inr (flt, orFilters @ [fieldFilters paramValue fields]))"

fun paramLoop ::
  "(string \<Rightarrow> bool) \<Rightarrow> params \<Rightarrow> obj \<times> jv list list \<Rightarrow> options
     \<Rightarrow> error + obj \<times> jv list list" where
  "paramLoop validDate ps st [] = Inr st"
| "paramLoop validDate ps st (p # rest) =
     (case paramStep validDate ps st p of
        Inl e \<Rightarrow> Inl e
      | Inr st' \<Rightarrow> paramLoop validDate ps st' rest)"

definition orGroup :: "jv list \<Rightarrow> jv" where
  "orGroup items = JObj [(''$or'', JArr items)]"

definition compose :: "obj \<times> jv list list \<Rightarrow> obj" where
  "compose st =
     (case st of (flt, orFilters) \<Rightarrow>
        if length orFilters = 1 then setProp ''$or'' (JArr (orFilters ! 0)) flt
        else if length orFilters > 1 then setProp ''$and'' (JArr (map orGroup orFilters)) flt
        else flt)"

definition getFilter :: "(string \<Rightarrow> bool) \<Rightarrow> params \<Rightarrow> options \<Rightarrow> error + obj" where
  "getFilter validDate ps options =
     (case paramLoop validDate ps ([], []) options of
        Inl e \<Rightarrow> Inl e
      | Inr st \<Rightarrow> Inr (compose st))"

text \<open>
  What a parameter contributes, read off the request and the options alone: its surviving
  alternative fields, its list of \<open>{field: value}\<close> constraints, and the parameters with
  two or more surviving alternatives, in the order of the options.
\<close>

definition survivors :: "(string \<Rightarrow> bool) \<Rightarrow> params \<Rightarrow> string \<times> string list \<Rightarrow> string list" where
  "survivors validDate ps p =
     (case ps (fst p) of None \<Rightarrow> [] | Some v \<Rightarrow> castFields validDate v (snd p))"

definition paramGroup :: "(string \<Rightarrow> bool) \<Rightarrow> params \<Rightarrow> string \<times> string list \<Rightarrow> jv list" where
  "paramGroup validDate ps p =
     (case ps (fst p) of None \<Rightarrow> [] | Some v \<Rightarrow> fieldFilters v (survivors validDate ps p))"

definition multiParams :: "(string \<Rightarrow> bool) \<Rightarrow> params \<Rightarrow> options \<Rightarrow> options" where
  "multiParams validDate ps options =
     filter (\<lambda>p. 2 \<le> length (survivors validDate ps p)) options"

fun isStr :: "jv \<Rightarrow> bool" where
  "isStr (JStr _) = True"
| "isStr _ = False"


section \<open>The request's query string\<close>

text \<open>Each parameter of \<open>req.query\<close> is a string, or absent (undefined).\<close>

record query =
  q_find :: "string option"
  q_select :: "string option"
  q_include :: "string option"
  q_exclude :: "string option"
  q_limit :: "string option"
  q_skip :: "string option"

definition noQuery :: query where
  "noQuery = \<lparr>q_find = None, q_select = None, q_include = None, q_exclude = None,
     q_limit = None, q_skip = None\<rparr>"

text \<open>A string that is present and not empty is truthy; \<open>given\<close> keeps only those.\<close>

fun given :: "string option \<Rightarrow> string option" where
  "given None = None"
| "given (Some s) = (if s = [] then None else Some s)"

section \<open>select\<close>

text \<open>\<open>s.split(sep)\<close> for a separator of one character.\<close>

fun split_js :: "char \<Rightarrow> string \<Rightarrow> string list" where
  "split_js sep [] = [[]]"
| "split_js sep (c # cs) =
     (if c = sep then [] # split_js sep cs
      else (case split_js sep cs of [] \<Rightarrow> [[c]] | w # ws \<Rightarrow> (c # w) # ws))"

text \<open>\<open>xs.join(sep)\<close>\<close>

fun join_js :: "string \<Rightarrow> string list \<Rightarrow> string" where
  "join_js sep [] = []"
| "join_js sep [x] = x"
| "join_js sep (x # y # ys) = x @ sep @ join_js sep (y # ys)"

text \<open>\<open>xs.indexOf(x)\<close>: the first index, or -1.\<close>

fun indexOf :: "'a list \<Rightarrow> 'a \<Rightarrow> int" where
  "indexOf [] x = - 1"
| "indexOf (y # ys) x =
     (if y = x then 0 else (let i = indexOf ys x in if i = - 1 then - 1 else i + 1))"

text \<open>\<open>xs.splice(index, 1)\<close>: a negative index counts from the end.\<close>

definition splice1 :: "'a list \<Rightarrow> int \<Rightarrow> 'a list" where
  "splice1 xs index =
     (let len = int (length xs);
          start = (if index < 0 then max (len + index) 0 else min index len)
      in take (nat start) xs @ drop (nat start + 1) xs)"

text \<open>
  The select whitelist is \<open>self.options.select.getKeys()\<close> (lackey-options-parser), or
  null when the route has no \<open>select\<close> option.
\<close>

type_synonym whiteList = "string list option"

definition unsupported :: "whiteList \<Rightarrow> string \<Rightarrow> bool" where
  "unsupported whiteList field =
     (case whiteList of
        None \<Rightarrow> False
      | Some wl \<Rightarrow> length wl > 0 \<and> indexOf wl field = - 1)"

text \<open>The check of the \<open>select\<close> parameter: the first unsupported field raises.\<close>

fun checkFields :: "whiteList \<Rightarrow> string list \<Rightarrow> error option" where
  "checkFields whiteList [] = None"
| "checkFields whiteList (field # rest) =
     (if unsupported whiteList field then Some (ArgumentError field)
      else checkFields whiteList rest)"

fun includeLoop :: "whiteList \<Rightarrow> string list \<Rightarrow> string list \<Rightarrow> error + string list" where
  "includeLoop whiteList flds [] = Inr flds"
| "includeLoop whiteList flds (field # rest) =
     (if indexOf flds field = - 1 then
        (if unsupported whiteList field then Inl (ArgumentError field)
         else includeLoop whiteList (flds @ [field]) rest)
      else includeLoop whiteList flds rest)"

text \<open>One turn of the loop over \<open>exclude.split(',')\<close>, on \<open>(fields, excludeWithDash)\<close>.\<close>

fun excludeStep :: "string list \<times> bool \<Rightarrow> string \<Rightarrow> string list \<times> bool" where
  "excludeStep (flds, excludeWithDash) field =
     (let index = indexOf flds field in
      if indexOf flds field > - 1 then (splice1 flds index, excludeWithDash)
      else if excludeWithDash \<or> length flds = 0 then (flds @ [''-'' @ field], True)
      else (flds, excludeWithDash))"

fun excludeLoop :: "string list \<times> bool \<Rightarrow> string list \<Rightarrow> string list \<times> bool" where
  "excludeLoop st [] = st"
| "excludeLoop st (field # rest) = excludeLoop (excludeStep st field) rest"

text \<open>The three stages of \<open>select\<close>: the starting set, \<open>include\<close>, \<open>exclude\<close>.\<close>

definition selectStage :: "whiteList \<Rightarrow> string option \<Rightarrow> query \<Rightarrow> error + string list" where
  "selectStage whiteList opts q =
     (let flds = (case given opts of None \<Rightarrow> [] | Some s \<Rightarrow> split_js CHR '' '' s) in
      case given (q_select q) of
        None \<Rightarrow> Inr flds
      | Some sel \<Rightarrow>
          (case checkFields whiteList (split_js CHR '','' sel) of
             Some e \<Rightarrow> Inl e
           | None \<Rightarrow> Inr (split_js CHR '','' sel)))"

definition includeStage :: "whiteList \<Rightarrow> query \<Rightarrow> string list \<Rightarrow> error + string list" where
  "includeStage whiteList q flds =
     (case given (q_include q) of
        None \<Rightarrow> Inr flds
      | Some inc \<Rightarrow> includeLoop whiteList flds (split_js CHR '','' inc))"

definition excludeStage :: "query \<Rightarrow> string list \<Rightarrow> string list" where
  "excludeStage q flds =
     (case given (q_exclude q) of
        None \<Rightarrow> flds
      | Some exc \<Rightarrow> fst (excludeLoop (flds, False) (split_js CHR '','' exc)))"

definition select :: "whiteList \<Rightarrow> string option \<Rightarrow> query \<Rightarrow> error + string" where
  "select whiteList opts q =
     (case selectStage whiteList opts q of
        Inl e \<Rightarrow> Inl e
      | Inr flds \<Rightarrow>
          (case includeStage whiteList q flds of
             Inl e \<Rightarrow> Inl e
           | Inr flds' \<Rightarrow> Inr (join_js '' '' (excludeStage q flds'))))"

section \<open>limit and skip\<close>

text \<open>
  The route's options \<open>limit\<close> and \<open>skip\<close> are numbers, or absent. Unary plus on
  undefined is NaN; on a string it is the engine's conversion, the parameter
  \<open>toNumber\<close> below.
\<close>

record handlerOptions =
  o_limit :: "jsnum option"
  o_skip :: "jsnum option"

record translator =
  limit_max :: jsnum
  skip_max :: jsnum

fun plusNum :: "jsnum option \<Rightarrow> jsnum" where
  "plusNum None = NaN"
| "plusNum (Some n) = n"

definition num_or :: "jsnum \<Rightarrow> jsnum \<Rightarrow> jsnum" where
  "num_or a b = (if truthy_num a then a else b)"

text \<open>The constructor: \<open>+options.limit || 100\<close> and \<open>+options.skip || 100\<close>.\<close>

definition Obj :: "handlerOptions \<Rightarrow> translator" where
  "Obj options =
     \<lparr>limit_max = num_or (plusNum (o_limit options)) (Num 100),
      skip_max = num_or (plusNum (o_skip options)) (Num 100)\<rparr>"

fun plusStr :: "(string \<Rightarrow> jsnum) \<Rightarrow> string option \<Rightarrow> jsnum" where
  "plusStr toNumber None = NaN"
| "plusStr toNumber (Some s) = toNumber s"

definition skip :: "(string \<Rightarrow> jsnum) \<Rightarrow> translator \<Rightarrow> query \<Rightarrow> error + jsnum" where
  "skip toNumber self q =
     (let maxSkip = skip_max self;
          skip = num_or (plusStr toNumber (q_skip q)) (Num 0)
      in if truthy_num maxSkip \<and> js_gt skip maxSkip then Inl (RangeError ''skip'')
         else Inr skip)"

text \<open>\<open>limit(defaultLimit)\<close>; the default may be left out (undefined), and so may the result.\<close>

definition limit ::
  "(string \<Rightarrow> jsnum) \<Rightarrow> translator \<Rightarrow> jsnum option \<Rightarrow> query \<Rightarrow> error + jsnum option" where
  "limit toNumber self defaultLimit q =
     (let n = plusStr toNumber (q_limit q);
          limit = (if truthy_num n then Some n else defaultLimit)
      in if js_gt (plusNum limit) (limit_max self) \<or> js_gt (plusNum defaultLimit) (limit_max self)
         then Inl (RangeError ''limit'')
         else Inr limit)"

text \<open>
  An instance of \<open>toNumber\<close> for the examples: the value of a string of decimal digits.
  On a string of one to fifteen digits it is the engine's conversion; it is not meant for
  any other string.
\<close>

definition digitValue :: "char \<Rightarrow> nat" where
  "digitValue c = of_char c - 48"

definition digitsValue :: "string \<Rightarrow> nat" where
  "digitsValue s = foldl (\<lambda>n c. 10 * n + digitValue c) 0 s"

definition decimalToNumber :: "string \<Rightarrow> jsnum" where
  "decimalToNumber s = Num (real (digitsValue s))"

section \<open>find\<close>

definition isDigit :: "char \<Rightarrow> bool" where
  "isDigit c = (c \<in> set ''0123456789'')"

text \<open>The part of the reviver's pattern after the seconds: \<open>(?:\.\d*)?Z$\<close>.\<close>

definition fractionZ :: "string \<Rightarrow> bool" where
  "fractionZ rest =
     (case rev rest of
        [] \<Rightarrow> False
      | z # front \<Rightarrow>
          z = CHR ''Z'' \<and>
          (case rev front of
             [] \<Rightarrow> True
           | dot # digits \<Rightarrow> dot = CHR ''.'' \<and> list_all isDigit digits))"

text \<open>
  \<open>/^(\d{4})-(\d{2})-(\d{2})T(\d{2}):(\d{2}):(\d{2}(?:\.\d*)?)Z$/.exec(value)\<close>: the six
  groups, or \<open>None\<close> for null.
\<close>

definition isoMatch ::
  "string \<Rightarrow> (string \<times> string \<times> string \<times> string \<times> string \<times> string) option" where
  "isoMatch s =
     (if 20 \<le> length s
         \<and> list_all isDigit (take 4 s) \<and> s ! 4 = CHR ''-''
         \<and> list_all isDigit (take 2 (drop 5 s)) \<and> s ! 7 = CHR ''-''
         \<and> list_all isDigit (take 2 (drop 8 s)) \<and> s ! 10 = CHR ''T''
         \<and> list_all isDigit (take 2 (drop 11 s)) \<and> s ! 13 = CHR '':''
         \<and> list_all isDigit (take 2 (drop 14 s)) \<and> s ! 16 = CHR '':''
         \<and> list_all isDigit (take 2 (drop 17 s)) \<and> fractionZ (drop 19 s)
      then Some (take 4 s, take 2 (drop 5 s), take 2 (drop 8 s), take 2 (drop 11 s),
                 take 2 (drop 14 s), butlast (drop 17 s))
      else None)"

text \<open>The reviver; it does not look at its \<open>key\<close> argument.\<close>

fun reviver :: "jv \<Rightarrow> jv" where
  "reviver (JStr s) =
     (case isoMatch s of
        None \<Rightarrow> JStr s
      | Some (y, mo, d, h, mi, sec) \<Rightarrow>
          JDateUTC (digitsValue y) (int (digitsValue mo) - 1) (digitsValue d)
            (digitsValue h) (digitsValue mi) sec)"
| "reviver v = v"

text \<open>
  \<open>JSON.parse(text, reviver)\<close> first parses, then walks the result and calls the reviver
  on every element and property, the innermost first, and on the whole value last.
\<close>

fun revive :: "jv \<Rightarrow> jv" where
  "revive (JArr xs) = reviver (JArr (map revive xs))"
| "revive (JObj kvs) = reviver (JObj (map (map_prod id revive) kvs))"
| "revive v = reviver v"

text \<open>
  \<open>jsonParse\<close> is the engine's \<open>JSON.parse\<close> without a reviver: the value, or \<open>None\<close>
  when it raises SyntaxError.
\<close>

text \<open>
  An instance of \<open>jsonParse\<close> for the examples: \<open>JSON.parse\<close> on the four texts
  \<open>null\<close>, \<open>false\<close>, \<open>0\<close> and \<open>""\<close>; it knows no other text.
\<close>

definition exampleParse :: "string \<Rightarrow> jv option" where
  "exampleParse s =
     (if s = ''null'' then Some JNull
      else if s = ''false'' then Some (JBool False)
      else if s = ''0'' then Some (JNum (Num 0))
      else if s = [CHR 0x22, CHR 0x22] then Some (JStr [])
      else None)"

definition find_js :: "(string \<Rightarrow> jv option) \<Rightarrow> query \<Rightarrow> error + jv" where
  "find_js jsonParse q =
     (case given (q_find q) of
        None \<Rightarrow> Inr (JObj [])
      | Some text \<Rightarrow>
          (case jsonParse text of
             None \<Rightarrow> Inl (SyntaxError text)
           | Some v \<Rightarrow> Inr (if truthy (revive v) then revive v else JObj [])))"

section \<open>The response\<close>

text \<open>
  What a handler does to the response and the logger is the list of its calls, in order.
  \<open>res.format\<close> receives one renderer per media type; which one runs is Express's
  content negotiation.
\<close>

datatype renderer =
    RenderView jv jv
  | SendJson jv
  | NotFoundVia string jv
  | NotAcceptable

datatype event =
    LogError jv
  | Status jv
  | Format "(string \<times> renderer) list"
  | Next

text \<open>What a call comes to: a value, an awaitable, or an exception.\<close>

codatatype 'r thenable = Thenable (thenOf: "(jv \<Rightarrow> 'r) \<Rightarrow> 'r list \<times> 'r thenable")

datatype 'r completion = Returned jv | Awaitable "'r thenable" | Raised error

section \<open>handleError\<close>

text \<open>
  \<open>err.name\<close>, \<open>err.message\<close>, \<open>err.errors\<close>, \<open>err.status\<close>: reading a property of
  null or undefined raises TypeError; a primitive, an array or a date has none of the
  four; an object has the ones it has.
\<close>

fun member :: "jv \<Rightarrow> string \<Rightarrow> error + jv" where
  "member JUndef k = Inl (NativeTypeError k)"
| "member JNull k = Inl (NativeTypeError k)"
| "member (JObj ob) k = Inr (getProp ob k)"
| "member _ k = Inr JUndef"

definition js_or :: "jv \<Rightarrow> jv \<Rightarrow> jv" where
  "js_or a b = (if truthy a then a else b)"

text \<open>The \<open>switch (err.name)\<close>.\<close>

definition statusOf :: "jv \<Rightarrow> real" where
  "statusOf name =
     (if name = JStr ''CastError'' \<or> name = JStr ''ValidationError''
         \<or> name = JStr ''ArgumentError'' \<or> name = JStr ''ArgumentNullError''
         \<or> name = JStr ''RangeError'' \<or> name = JStr ''TypeError'' then 400
      else if name = JStr ''AuthenticationRequiredError'' then 401
      else if name = JStr ''NotPermittedError'' then 403
      else if name = JStr ''NotFoundError'' then 404
      else if name = JStr ''NotSupportedError'' then 415
      else if name = JStr ''MongoError'' \<or> name = JStr ''AlreadyInUseError'' then 409
      else 500)"

text \<open>
  The function \<open>handleError()\<close> returns, applied to \<open>err\<close>: the exception it raises, or
  the calls it makes. \<open>errorsView\<close> is \<open>self.options.errorsView\<close>.
\<close>

definition handleError :: "jv \<Rightarrow> jv \<Rightarrow> error + event list" where
  "handleError errorsView err =
     (case member err ''name'' of
        Inl e \<Rightarrow> Inl e
      | Inr name \<Rightarrow>
     (case member err ''message'' of
        Inl e \<Rightarrow> Inl e
      | Inr message \<Rightarrow>
     (case member err ''errors'' of
        Inl e \<Rightarrow> Inl e
      | Inr errors \<Rightarrow>
     (case member err ''status'' of
        Inl e \<Rightarrow> Inl e
      | Inr status \<Rightarrow>
          let errObj =
                [(''name'', js_or name (JStr ''InternalError'')),
                 (''message'', js_or message (JStr ''An unexpected error has occurred.'')),
                 (''errors'', js_or errors JUndef),
                 (''status'', status)]
          in if \<not> truthy err then Inr []
             else
               let errObj' =
                     (if \<not> truthy status
                      then setProp ''status'' (JNum (Num (statusOf name))) errObj
                      else errObj)
               in Inr [LogError err,
                       Status (getProp errObj' ''status''),
                       Format [(''text/html'', RenderView errorsView (JObj errObj')),
                               (''application/json'', SendJson (JObj errObj'))]]))))"

text \<open>The table of the specification, name by name.\<close>

definition specStatus :: "(string \<times> real) list" where
  "specStatus =
     [(''CastError'', 400), (''ValidationError'', 400), (''ArgumentError'', 400),
      (''ArgumentNullError'', 400), (''RangeError'', 400), (''TypeError'', 400),
      (''AuthenticationRequiredError'', 401), (''NotPermittedError'', 403),
      (''NotFoundError'', 404), (''NotSupportedError'', 415), (''MongoError'', 409),
      (''AlreadyInUseError'', 409)]"

definition specStatusOf :: "jv \<Rightarrow> real" where
  "specStatusOf name =
     (case name of
        JStr n \<Rightarrow> (case map_of specStatus n of Some st \<Rightarrow> st | None \<Rightarrow> 500)
      | _ \<Rightarrow> 500)"

section \<open>handle404\<close>

text \<open>
  The registry \<open>require('./handlers')\<close> is not among the sources; it is taken as given:
  the tokens in the order of \<open>Object.keys\<close>, each with its handler's \<open>mediaType\<close>.
\<close>

type_synonym handlers = "(string \<times> string) list"

text \<open>
  The loop over \<open>mediaTypes\<close>, on \<open>formatOpts\<close>: an unregistered type raises. The value
  stored is the closure \<open>handler.notFound({req, res, opts})\<close>, with \<open>opts\<close> the second
  piece of the item, or undefined.
\<close>

fun notFoundEntries ::
  "handlers \<Rightarrow> (string \<times> renderer) list \<Rightarrow> string list
     \<Rightarrow> error + (string \<times> renderer) list" where
  "notFoundEntries hs formatOpts [] = Inr formatOpts"
| "notFoundEntries hs formatOpts (item # rest) =
     (case split_js CHR '':'' item of
        [] \<Rightarrow> Inl (NotSupportedError ''undefined'')
      | type # others \<Rightarrow>
          (case map_of hs type of
             None \<Rightarrow> Inl (NotSupportedError type)
           | Some mediaType \<Rightarrow>
               notFoundEntries hs
                 (setProp mediaType
                    (NotFoundVia type (case others of [] \<Rightarrow> JUndef | v # _ \<Rightarrow> JStr v))
                    formatOpts)
                 rest))"

text \<open>
  \<open>function fakePromise() { return {then: fakePromise}; }\<close>: its \<open>then\<close> takes the
  callbacks, calls none of them and returns such an object again. The list in the result
  of \<open>thenOf\<close> holds what the callbacks it called returned.
\<close>

primcorec fakePromise :: "'r thenable" where
  "thenOf fakePromise = (\<lambda>callback. ([], fakePromise))"

text \<open>\<open>p.then(c1).then(c2)...\<close>: everything the callbacks that ran returned.\<close>

fun chain :: "'r thenable \<Rightarrow> (jv \<Rightarrow> 'r) list \<Rightarrow> 'r list" where
  "chain p [] = []"
| "chain p (c # cs) = (case thenOf p c of (rs, p') \<Rightarrow> rs @ chain p' cs)"

text \<open>The function \<open>handle404(opts)\<close> returns, applied to \<open>data\<close>.\<close>

definition handle404 :: "handlers \<Rightarrow> string option \<Rightarrow> jv \<Rightarrow> 'r completion \<times> event list" where
  "handle404 hs opts data =
     (let mediaTypes = (case given opts of None \<Rightarrow> map fst hs | Some s \<Rightarrow> split_js CHR '' '' s)
      in if truthy data then (Returned data, [])
         else
           (case notFoundEntries hs [] mediaTypes of
              Inl e \<Rightarrow> (Raised e, [Status (JNum (Num 404))])
            | Inr formatOpts \<Rightarrow>
                (Awaitable fakePromise,
                 [Status (JNum (Num 404)),
                  Format (setProp ''default'' NotAcceptable formatOpts)])))"

text \<open>
  \<open>handle404.callNext\<close> is a property of the function \<open>Obj.prototype.handle404\<close>, and
  its body starts with \<open>var self = this\<close>. In the call \<open>o.handle404.callNext()\<close>, the
  form the README gives, \<open>this\<close> is the object the method is read from: the function
  \<open>o.handle404\<close>, which has no property \<open>next\<close>. Only a call that passes the translator
  as \<open>this\<close>, such as \<open>o.handle404.callNext.call(o)\<close>, finds \<open>o.next\<close>.
\<close>

datatype receiver = TheTranslator | TheHandle404Function

text \<open>\<open>self.next\<close>: the request's continuation, or undefined.\<close>

fun nextOf :: "receiver \<Rightarrow> event option" where
  "nextOf TheTranslator = Some Next"
| "nextOf TheHandle404Function = None"

text \<open>The function \<open>callNext()\<close> returns, applied to \<open>data\<close>; calling undefined raises.\<close>

definition callNext :: "receiver \<Rightarrow> jv \<Rightarrow> 'r completion \<times> event list" where
  "callNext self data =
     (if truthy data then (Returned data, [])
      else (case nextOf self of
              None \<Rightarrow> (Raised (NativeTypeError ''self.next is not a function''), [])
            | Some call \<Rightarrow> (Returned JUndef, [call])))"

section \<open>getBody\<close>

text \<open>
  \<open>req.files\<close> as an upload middleware leaves it: undefined, an array of files, or an
  object that maps a form field to a file or to an array of files. \<open>req.body\<close> is an
  object.
\<close>

record upload =
  mimetype :: string
  path :: string

datatype fieldFiles = OneFile upload | ManyFiles "upload list"

datatype files = FilesArray "upload list" | FilesByField "(string \<times> fieldFiles) list"

text \<open>
  The number a property value of such an object converts to in \<open>files.length > 0\<close>: an
  object, and an array of objects, convert through their string (\<open>[object Object]\<close> is
  not a number, the empty string is zero).
\<close>

fun fieldToNumber :: "fieldFiles \<Rightarrow> jsnum" where
  "fieldToNumber (OneFile f) = NaN"
| "fieldToNumber (ManyFiles []) = Num 0"
| "fieldToNumber (ManyFiles (f # fs)) = NaN"

text \<open>\<open>files.length\<close>, as a number.\<close>

fun filesLength :: "files \<Rightarrow> jsnum" where
  "filesLength (FilesArray fs) = Num (real (length fs))"
| "filesLength (FilesByField m) =
     (case map_of m ''length'' of None \<Rightarrow> NaN | Some v \<Rightarrow> fieldToNumber v)"

text \<open>\<open>Object.keys(files).length\<close>\<close>

fun keyCount :: "files \<Rightarrow> nat" where
  "keyCount (FilesArray fs) = length fs"
| "keyCount (FilesByField m) = length m"

text \<open>\<open>files[fileNames[0]]\<close>: a file, an array of files, or undefined.\<close>

datatype picked = NoFile | AFile upload | AnArray

fun firstFile :: "files \<Rightarrow> picked" where
  "firstFile (FilesArray []) = NoFile"
| "firstFile (FilesArray (f # fs)) = AFile f"
| "firstFile (FilesByField []) = NoFile"
| "firstFile (FilesByField ((k, OneFile f) # m)) = AFile f"
| "firstFile (FilesByField ((k, ManyFiles fs) # m)) = AnArray"

text \<open>
  The file system and \<open>JSON.parse\<close> together: a path cannot be read, or its text does not
  parse, or it holds a JSON object. A file that holds another JSON value is not covered.
\<close>

datatype fileContent = Unreadable | Malformed | Document obj

text \<open>
  The names every object inherits from \<open>Object.prototype\<close>: reading one of them from
  an object that has no such property of its own gives the inherited value.
\<close>

definition objectPrototypeKeys :: "string list" where
  "objectPrototypeKeys =
     [''constructor'', ''toString'', ''toLocaleString'', ''valueOf'', ''hasOwnProperty'',
      ''isPrototypeOf'', ''propertyIsEnumerable'', ''__proto__'', ''__defineGetter__'',
      ''__defineSetter__'', ''__lookupGetter__'', ''__lookupSetter__'']"

text \<open>\<open>parsedData[key] === undefined\<close>\<close>

definition undefinedAt :: "obj \<Rightarrow> string \<Rightarrow> bool" where
  "undefinedAt ob key =
     (case map_of ob key of
        Some v \<Rightarrow> v = JUndef
      | None \<Rightarrow> key \<notin> set objectPrototypeKeys)"

text \<open>The loop over \<open>Object.keys(body)\<close>, on \<open>parsedData\<close>.\<close>

fun mergeBody :: "obj \<Rightarrow> obj \<Rightarrow> string list \<Rightarrow> obj" where
  "mergeBody body parsedData [] = parsedData"
| "mergeBody body parsedData (key # keys) =
     mergeBody body
       (if undefinedAt parsedData key then setProp key (getProp body key) parsedData
        else parsedData)
       keys"

text \<open>
  How the call ends: the promise is resolved or rejected, or the call raises before it
  returns the promise (after rejecting it, in the default case), or an exception leaves
  the callback of \<open>readFile\<close> and the promise stays pending.
\<close>

datatype outcome =
    Resolved jv
  | Rejected error
  | Thrown error
  | RejectedAndThrown error
  | Escaped error

text \<open>
  What the call does on the way, in order. The handler attached to the promise at the
  start of the upload branch runs \<open>handleError\<close> on a rejection.
\<close>

datatype step =
    AttachErrorHandler
  | Dispatch string
  | ReadFile string
  | Merge
  | RunErrorHandler error

definition getBody :: "(string \<Rightarrow> fileContent) \<Rightarrow> files option \<Rightarrow> obj \<Rightarrow> outcome \<times> step list" where
  "getBody readFile files body =
     (case files of
        None \<Rightarrow> (Resolved (JObj body), [])
      | Some fs \<Rightarrow>
          if js_gt (filesLength fs) (Num 0) then
            (if keyCount fs > 1 then
               (Thrown (GenericError ''Only one file can be submitted at each time''),
                [AttachErrorHandler])
             else
               (case firstFile fs of
                  NoFile \<Rightarrow> (Thrown (NativeTypeError ''mimetype''), [AttachErrorHandler])
                | AnArray \<Rightarrow>
                    (RejectedAndThrown (TypeError ''Unrecognized file type''),
                     [AttachErrorHandler, RunErrorHandler (TypeError ''Unrecognized file type'')])
                | AFile file \<Rightarrow>
                    if mimetype file = ''application/json'' then
                      (case readFile (path file) of
                         Unreadable \<Rightarrow>
                           (Rejected (FileNotFoundError (path file)),
                            [AttachErrorHandler, Dispatch (mimetype file), ReadFile (path file),
                             RunErrorHandler (FileNotFoundError (path file))])
                       | Malformed \<Rightarrow>
                           (Escaped (SyntaxError (path file)),
                            [AttachErrorHandler, Dispatch (mimetype file), ReadFile (path file)])
                       | Document parsedData \<Rightarrow>
                           (Resolved (JObj (mergeBody body parsedData (map fst body))),
                            [AttachErrorHandler, Dispatch (mimetype file), ReadFile (path file),
                             Merge]))
                    else
                      (RejectedAndThrown (TypeError ''Unrecognized file type''),
                       [AttachErrorHandler, Dispatch (mimetype file),
                        RunErrorHandler (TypeError ''Unrecognized file type'')])))
          else (Resolved (JObj body), []))"

section \<open>Properties of getFilter\<close>

subsection \<open>Objects\<close>

lemma getProp_setProp_same: "getProp (setProp k v ob) k = v"
  by (induction ob) (auto simp: getProp_def)

lemma getProp_setProp_other: "k' \<noteq> k \<Longrightarrow> getProp (setProp k v ob) k' = getProp ob k'"
  by (induction ob) (auto simp: getProp_def)

lemma setProp_values: "(k', v') \<in> set (setProp k v ob) \<Longrightarrow> v' = v \<or> (k', v') \<in> set ob"
  by (induction ob) (auto split: if_splits)

lemma getProp_strings:
  "\<forall>kv \<in> set ob. isStr (snd kv) \<Longrightarrow> getProp ob k = JUndef \<or> isStr (getProp ob k)"
  by (auto simp: getProp_def split: option.splits dest!: map_of_SomeD)

subsection \<open>Composition across parameters\<close>

lemma paramStep_inv:
  assumes "paramStep vd ps (flt, ors) p = Inr (flt', ors')"
  shows "ors' = ors @ map (paramGroup vd ps) (multiParams vd ps [p])"
    and "(\<forall>kv \<in> set flt. isStr (snd kv)) \<Longrightarrow> (\<forall>kv \<in> set flt'. isStr (snd kv))"
proof -
  obtain n items where p: "p = (n, items)" by (cases p)
  from assms obtain v where v: "ps n = Some v" "v \<noteq> []"
    unfolding p by (auto split: option.splits if_splits)
  let ?fs = "castFields vd v items"
  from assms v have nz: "length ?fs \<noteq> 0"
    unfolding p by (auto simp: Let_def split: if_splits)
  show "ors' = ors @ map (paramGroup vd ps) (multiParams vd ps [p])"
  proof (cases "length ?fs = 1")
    case True
    with assms v show ?thesis unfolding p
      by (auto simp: multiParams_def survivors_def Let_def split: if_splits)
  next
    case False
    with nz have "2 \<le> length ?fs" by arith
    with assms v False nz show ?thesis unfolding p
      by (auto simp: multiParams_def survivors_def paramGroup_def Let_def split: if_splits)
  qed
  show "\<forall>kv \<in> set flt'. isStr (snd kv)" if h: "\<forall>kv \<in> set flt. isStr (snd kv)"
  proof (cases "length ?fs = 1")
    case True
    with assms v have "flt' = setProp (?fs ! 0) (JStr v) flt" unfolding p
      by (auto simp: Let_def split: if_splits)
    with h show ?thesis by (auto dest!: setProp_values)
  next
    case False
    with assms v nz have "flt' = flt" unfolding p
      by (auto simp: Let_def split: if_splits)
    with h show ?thesis by simp
  qed
qed

lemma multiParams_Cons: "multiParams vd ps (p # rest) = multiParams vd ps [p] @ multiParams vd ps rest"
  by (simp add: multiParams_def)

lemma paramLoop_inv:
  assumes "paramLoop vd ps (flt, ors) opts = Inr (flt', ors')"
  shows "ors' = ors @ map (paramGroup vd ps) (multiParams vd ps opts)
     \<and> ((\<forall>kv \<in> set flt. isStr (snd kv)) \<longrightarrow> (\<forall>kv \<in> set flt'. isStr (snd kv)))"
  using assms
proof (induction opts arbitrary: flt ors)
  case Nil
  then show ?case by (simp add: multiParams_def)
next
  case (Cons p rest)
  from Cons.prems obtain f1 o1 where
    s: "paramStep vd ps (flt, ors) p = Inr (f1, o1)" and
    l: "paramLoop vd ps (f1, o1) rest = Inr (flt', ors')"
    by (auto split: sum.splits)
  from paramStep_inv[OF s] Cons.IH[OF l] show ?case
    by (simp add: multiParams_Cons[of vd ps p rest])
qed

text \<open>
  C1. Whenever \<open>getFilter\<close> returns a filter: if exactly one parameter has two or more
  surviving alternative fields, the root of the filter holds that parameter's list of
  constraints under \<open>$or\<close>; if two or more parameters have, the root holds under
  \<open>$and\<close> one \<open>{$or: [...]}\<close> group per such parameter, in order, each with that
  parameter's constraints only, and the root has no list under \<open>$or\<close>.
\<close>

theorem getFilter_composition:
  assumes "getFilter validDate ps options = Inr flt"
  shows "(\<forall>p. multiParams validDate ps options = [p] \<longrightarrow>
            getProp flt ''$or'' = JArr (paramGroup validDate ps p))
       \<and> (2 \<le> length (multiParams validDate ps options) \<longrightarrow>
            getProp flt ''$and'' =
              JArr (map (\<lambda>p. orGroup (paramGroup validDate ps p)) (multiParams validDate ps options))
            \<and> (\<forall>items. getProp flt ''$or'' \<noteq> JArr items))"
proof -
  from assms obtain f1 o1 where
    l: "paramLoop validDate ps ([], []) options = Inr (f1, o1)" and f: "flt = compose (f1, o1)"
    by (auto simp: getFilter_def split: sum.splits)
  from paramLoop_inv[OF l] have
    o1: "o1 = map (paramGroup validDate ps) (multiParams validDate ps options)" and
    strs: "\<forall>kv \<in> set f1. isStr (snd kv)" by auto
  have one: "getProp flt ''$or'' = JArr (paramGroup validDate ps p)"
    if "multiParams validDate ps options = [p]" for p
    using that o1 f by (simp add: compose_def getProp_setProp_same)
  have many: "getProp flt ''$and'' =
              JArr (map (\<lambda>p. orGroup (paramGroup validDate ps p)) (multiParams validDate ps options))
            \<and> (\<forall>items. getProp flt ''$or'' \<noteq> JArr items)"
    if "2 \<le> length (multiParams validDate ps options)"
  proof -
    from that o1 have len: "length o1 > 1" "length o1 \<noteq> 1" by auto
    then have f': "flt = setProp ''$and'' (JArr (map orGroup o1)) f1"
      using f by (simp add: compose_def)
    have "getProp flt ''$or'' = getProp f1 ''$or''"
      unfolding f' by (rule getProp_setProp_other) simp
    moreover from getProp_strings[OF strs, of "''$or''"]
    have "\<forall>items. getProp f1 ''$or'' \<noteq> JArr items" by auto
    ultimately show ?thesis
      unfolding f' using o1 by (simp add: getProp_setProp_same comp_def)
  qed
  from one many show ?thesis by blast
qed

theorem getFilter_composition_witness:
  "getFilter (\<lambda>_. False) [''id'' \<mapsto> ''abc''] [(''id'', [''slug'', ''name''])]
     = Inr [(''$or'', JArr [JObj [(''slug'', JStr ''abc'')], JObj [(''name'', JStr ''abc'')]])]
   \<and> multiParams (\<lambda>_. False) [''id'' \<mapsto> ''abc''] [(''id'', [''slug'', ''name''])]
     = [(''id'', [''slug'', ''name''])]
   \<and> getProp [(''$or'', JArr [JObj [(''slug'', JStr ''abc'')], JObj [(''name'', JStr ''abc'')]])] ''$or''
     = JArr (paramGroup (\<lambda>_. False) [''id'' \<mapsto> ''abc''] (''id'', [''slug'', ''name'']))
   \<and> getFilter (\<lambda>_. False) [''id'' \<mapsto> ''abc'', ''s'' \<mapsto> ''x'']
        [(''id'', [''slug'', ''name'']), (''s'', [''a'', ''b''])]
     = Inr [(''$and'', JArr [JObj [(''$or'', JArr [JObj [(''slug'', JStr ''abc'')], JObj [(''name'', JStr ''abc'')]])],
                             JObj [(''$or'', JArr [JObj [(''a'', JStr ''x'')], JObj [(''b'', JStr ''x'')]])]])]
   \<and> 2 \<le> length (multiParams (\<lambda>_. False) [''id'' \<mapsto> ''abc'', ''s'' \<mapsto> ''x'']
        [(''id'', [''slug'', ''name'']), (''s'', [''a'', ''b''])])
   \<and> getProp [(''$and'', JArr [JObj [(''$or'', JArr [JObj [(''slug'', JStr ''abc'')], JObj [(''name'', JStr ''abc'')]])],
                             JObj [(''$or'', JArr [JObj [(''a'', JStr ''x'')], JObj [(''b'', JStr ''x'')]])]])] ''$and''
     = JArr (map (\<lambda>p. orGroup (paramGroup (\<lambda>_. False) [''id'' \<mapsto> ''abc'', ''s'' \<mapsto> ''x''] p))
          (multiParams (\<lambda>_. False) [''id'' \<mapsto> ''abc'', ''s'' \<mapsto> ''x'']
             [(''id'', [''slug'', ''name'']), (''s'', [''a'', ''b''])]))"
proof -
  let ?vd = "\<lambda>_::string. False"
  let ?ps1 = "[''id'' \<mapsto> ''abc'']"
  let ?o1 = "[(''id'', [''slug'', ''name''])]"
  let ?f1 = "[(''$or'', JArr [JObj [(''slug'', JStr ''abc'')], JObj [(''name'', JStr ''abc'')]])]"
  let ?ps2 = "[''id'' \<mapsto> ''abc'', ''s'' \<mapsto> ''x'']"
  let ?o2 = "[(''id'', [''slug'', ''name'']), (''s'', [''a'', ''b''])]"
  let ?f2 = "[(''$and'', JArr [JObj [(''$or'', JArr [JObj [(''slug'', JStr ''abc'')], JObj [(''name'', JStr ''abc'')]])],
                             JObj [(''$or'', JArr [JObj [(''a'', JStr ''x'')], JObj [(''b'', JStr ''x'')]])]])]"
  have g1: "getFilter ?vd ?ps1 ?o1 = Inr ?f1" by code_simp
  have m1: "multiParams ?vd ?ps1 ?o1 = [(''id'', [''slug'', ''name''])]" by code_simp
  have g2: "getFilter ?vd ?ps2 ?o2 = Inr ?f2" by code_simp
  have m2: "2 \<le> length (multiParams ?vd ?ps2 ?o2)" by code_simp
  from getFilter_composition[OF g1] m1
  have c1: "getProp ?f1 ''$or'' = JArr (paramGroup ?vd ?ps1 (''id'', [''slug'', ''name'']))"
    by blast
  from getFilter_composition[OF g2] m2
  have c2: "getProp ?f2 ''$and'' = JArr (map (\<lambda>p. orGroup (paramGroup ?vd ?ps2 p)) (multiParams ?vd ?ps2 ?o2))"
    by blast
  from g1 m1 c1 g2 m2 c2 show ?thesis by blast
qed

subsection \<open>The type tag of an alternative\<close>





























text \<open>
  X4. The documented examples: with \<open>id:ObjectId(_id),slug\<close> a valid ObjectId gives
  the \<open>$or\<close> of both fields and another value gives \<open>slug\<close> alone; a parameter
  whose alternatives are all dropped raises TypeError; an absent parameter raises
  ArgumentNullError.
\<close>

theorem getFilter_examples:
  "getFilter (\<lambda>_. False) [''id'' \<mapsto> ''507f1f77bcf86cd799439011'']
       [(''id'', [''ObjectId(_id)'', ''slug''])]
     = Inr [(''$or'', JArr [JObj [(''_id'', JStr ''507f1f77bcf86cd799439011'')],
                           JObj [(''slug'', JStr ''507f1f77bcf86cd799439011'')]])]
   \<and> getFilter (\<lambda>_. False) [''id'' \<mapsto> ''my-post''] [(''id'', [''ObjectId(_id)'', ''slug''])]
     = Inr [(''slug'', JStr ''my-post'')]
   \<and> getFilter (\<lambda>_. False) [''id'' \<mapsto> ''my-post''] [(''id'', [''ObjectId(_id)'', ''Date(at)''])]
     = Inl (TypeError ''id'')
   \<and> getFilter (\<lambda>_. False) Map.empty [(''id'', [''ObjectId(_id)'', ''slug''])]
     = Inl (ArgumentNullError ''id'')"
  by code_simp

section \<open>Properties of select\<close>

lemma indexOf_ge: "- 1 \<le> indexOf xs x"
  by (induction xs) (auto simp: Let_def)

lemma indexOf_found: "(indexOf xs x > - 1) = (x \<in> set xs)"
proof (induction xs)
  case Nil
  then show ?case by simp
next
  case (Cons y ys)
  from indexOf_ge[of ys x] have "indexOf ys x = - 1 \<or> indexOf ys x > - 1" by arith
  with Cons show ?case by (auto simp: Let_def)
qed

lemma splice1_Cons_Suc: "0 \<le> i \<Longrightarrow> splice1 (y # ys) (i + 1) = y # splice1 ys i"
  by (auto simp: splice1_def Let_def nat_add_distrib min_def)

lemma splice1_indexOf: "x \<in> set xs \<Longrightarrow> splice1 xs (indexOf xs x) = remove1 x xs"
proof (induction xs)
  case Nil
  then show ?case by simp
next
  case (Cons y ys)
  show ?case
  proof (cases "y = x")
    case True
    then show ?thesis by (simp add: splice1_def)
  next
    case False
    with Cons.prems have m: "x \<in> set ys" by simp
    with indexOf_found[of ys x] have pos: "0 \<le> indexOf ys x" "indexOf ys x \<noteq> - 1" by auto
    from False pos have "indexOf (y # ys) x = indexOf ys x + 1" by (simp add: Let_def)
    with splice1_Cons_Suc[OF pos(1), of y ys] Cons.IH[OF m] False show ?thesis by simp
  qed
qed

lemma excludeStep_cases:
  "excludeStep (flds, dash) field =
     (if field \<in> set flds then (remove1 field flds, dash)
      else if dash \<or> flds = [] then (flds @ [CHR ''-'' # field], True)
      else (flds, dash))"
  using indexOf_found[of flds field] splice1_indexOf[of field flds]
  by (auto simp: Let_def)

lemma excludeStep_dash: "snd (excludeStep (flds, True) field) = True"
  by (simp add: excludeStep_cases)

lemma excludeLoop_dash: "snd st = True \<Longrightarrow> snd (excludeLoop st xs) = True"
proof (induction xs arbitrary: st)
  case Nil
  then show ?case by simp
next
  case (Cons x xs)
  obtain flds d where st: "st = (flds, d)" by (cases st)
  with Cons.prems have "snd (excludeStep st x) = True" by (simp add: excludeStep_dash)
  then show ?case using Cons.IH by simp
qed

lemma excludeLoop_append: "excludeLoop st (xs @ ys) = excludeLoop (excludeLoop st xs) ys"
  by (induction xs arbitrary: st) simp_all

text \<open>
  An excluded field that is not in the field list is neither removed nor written with a
  dash while the list is not empty: \<open>exclude=c\<close> on the fields \<open>a b\<close> leaves \<open>a b\<close>.
\<close>

theorem exclude_missing_field_ignored:
  "indexOf [''a'', ''b''] ''c'' = - 1
   \<and> excludeLoop ([''a'', ''b''], False) [''c''] = ([''a'', ''b''], False)
   \<and> select None (Some ''a b'') (noQuery\<lparr>q_exclude := Some ''c''\<rparr>) = Inr ''a b''"
  by code_simp

text \<open>
  C2, as the code has it. An excluded field that is in the current field list is removed
  from it (its first occurrence), in dash mode or not. An excluded field that is not in
  the list is written as \<open>-field\<close> when dash mode is on or the list is empty, and that
  turns dash mode on; otherwise it is ignored and the list stays as it is. Dash mode,
  once entered, persists for the remainder of exclude processing.
\<close>

theorem exclude_dash_mode:
  "excludeStep (flds, dash) field =
     (if field \<in> set flds then (remove1 field flds, dash)
      else if dash \<or> flds = [] then (flds @ [CHR ''-'' # field], True)
      else (flds, dash))
   \<and> (snd (excludeLoop st xs) \<longrightarrow> snd (excludeLoop st (xs @ ys)))"
  using excludeStep_cases[of flds dash field] excludeLoop_dash[of "excludeLoop st xs" ys]
  by (simp add: excludeLoop_append)

theorem exclude_dash_mode_witness:
  "excludeStep ([''a''], False) ''a'' = ([], False)
   \<and> excludeStep ([], False) ''b'' = ([''-b''], True)
   \<and> excludeStep ([''-b''], True) ''c'' = ([''-b'', ''-c''], True)
   \<and> snd (excludeLoop ([''a''], False) [''a'', ''b''])
   \<and> snd (excludeLoop ([''a''], False) ([''a'', ''b''] @ [''c'']))"
proof -
  have d: "snd (excludeLoop ([''a''], False) [''a'', ''b''])" by code_simp
  note t1 = exclude_dash_mode[of "[''a'']" False "''a''" "([''a''], False)" "[''a'', ''b'']" "[''c'']"]
  note t2 = exclude_dash_mode[of "[]" False "''b''" "([''a''], False)" "[''a'', ''b'']" "[''c'']"]
  note t3 = exclude_dash_mode[of "[''-b'']" True "''c''" "([''a''], False)" "[''a'', ''b'']" "[''c'']"]
  from t1 have r1: "excludeStep ([''a''], False) ''a'' = ([], False)" by simp
  from t2 have r2: "excludeStep ([], False) ''b'' = ([''-b''], True)" by simp
  from t3 have r3: "excludeStep ([''-b''], True) ''c'' = ([''-b'', ''-c''], True)" by simp
  from t1 d have r4: "snd (excludeLoop ([''a''], False) ([''a'', ''b''] @ [''c'']))" by blast
  from r1 r2 r3 d r4 show ?thesis by blast
qed

text \<open>
  X5. The documented example \<open>select=title,name&include=createdAt\<close> gives
  \<open>title name createdAt\<close>; a selected field outside the whitelist raises
  ArgumentError; excluding past the last field switches to dashes.
\<close>

theorem select_examples:
  "select None (Some ''title name createdAt'')
       (noQuery\<lparr>q_select := Some ''title,name'', q_include := Some ''createdAt''\<rparr>)
     = Inr ''title name createdAt''
   \<and> select (Some [''title'', ''name'']) (Some ''title'') (noQuery\<lparr>q_select := Some ''title,secret''\<rparr>)
     = Inl (ArgumentError ''secret'')
   \<and> select None (Some ''a'') (noQuery\<lparr>q_exclude := Some ''a,b,c''\<rparr>) = Inr ''-b -c''"
  by code_simp

section \<open>Properties of limit and skip\<close>

lemma Obj_defaults:
  "skip_max (Obj (options\<lparr>o_skip := None\<rparr>)) = Num 100"
  "limit_max (Obj (options\<lparr>o_limit := None\<rparr>)) = Num 100"
  by (simp_all add: Obj_def num_or_def)

text \<open>
  With no options at all the skip ceiling is 100: \<open>skip=101\<close> raises RangeError.
\<close>

theorem skip_default_ceiling_exceeded:
  "skip decimalToNumber (Obj \<lparr>o_limit = None, o_skip = None\<rparr>) (noQuery\<lparr>q_skip := Some ''101''\<rparr>)
     = Inl (RangeError ''skip'')"
  by (simp add: skip_def Obj_def num_or_def noQuery_def decimalToNumber_def digitsValue_def
      digitValue_def)

text \<open>
  C8, as the code has it. When the route options configure no skip ceiling, the constructor
  sets it to 100, as it sets the limit ceiling to 100 when no limit is configured:
  \<open>skip()\<close> returns the query's skip value (0 when it is absent or not a number) when
  that is not greater than 100, and raises RangeError when it is; \<open>limit()\<close> raises
  RangeError when the effective limit or the default given is greater than 100.
\<close>

theorem skip_default_ceiling:
  "skip_max (Obj (options\<lparr>o_skip := None\<rparr>)) = Num 100
   \<and> limit_max (Obj (options\<lparr>o_limit := None\<rparr>)) = Num 100
   \<and> skip toNumber (Obj (options\<lparr>o_skip := None\<rparr>)) q =
       (if js_gt (num_or (plusStr toNumber (q_skip q)) (Num 0)) (Num 100)
        then Inl (RangeError ''skip'')
        else Inr (num_or (plusStr toNumber (q_skip q)) (Num 0)))
   \<and> limit toNumber (Obj (options\<lparr>o_limit := None\<rparr>)) defaultLimit q =
       (if js_gt (plusNum (if truthy_num (plusStr toNumber (q_limit q))
                           then Some (plusStr toNumber (q_limit q)) else defaultLimit)) (Num 100)
           \<or> js_gt (plusNum defaultLimit) (Num 100)
        then Inl (RangeError ''limit'')
        else Inr (if truthy_num (plusStr toNumber (q_limit q))
                  then Some (plusStr toNumber (q_limit q)) else defaultLimit))"
  by (simp add: Obj_defaults skip_def limit_def Let_def)

text \<open>
  X6. With the ceiling 100 and the default 20, \<open>limit\<close> returns 20 when the query gives
  no limit, and raises RangeError for \<open>limit=500\<close>.
\<close>

theorem limit_examples:
  "limit decimalToNumber (Obj \<lparr>o_limit = Some (Num 100), o_skip = None\<rparr>) (Some (Num 20)) noQuery
     = Inr (Some (Num 20))
   \<and> limit decimalToNumber (Obj \<lparr>o_limit = Some (Num 100), o_skip = None\<rparr>) (Some (Num 20))
       (noQuery\<lparr>q_limit := Some ''500''\<rparr>)
     = Inl (RangeError ''limit'')"
  by (simp add: limit_def Obj_def num_or_def noQuery_def decimalToNumber_def digitsValue_def
      digitValue_def)

section \<open>Properties of handleError\<close>

lemma statusOf_spec: "statusOf name = specStatusOf name"
proof (cases name)
  case (JStr n)
  then show ?thesis by (simp add: statusOf_def specStatusOf_def specStatus_def)
qed (simp_all add: statusOf_def specStatusOf_def)

lemma member_truthy: "truthy err \<Longrightarrow> \<exists>v. member err k = Inr v"
  by (cases err) simp_all

lemma handleError_truthy:
  assumes "truthy err"
    and "member err ''name'' = Inr name" and "member err ''message'' = Inr message"
    and "member err ''errors'' = Inr errors" and "member err ''status'' = Inr status"
    and "\<not> truthy status"
  shows "handleError errorsView err =
     Inr [LogError err,
          Status (JNum (Num (statusOf name))),
          Format [(''text/html'', RenderView errorsView (JObj
                    [(''name'', js_or name (JStr ''InternalError'')),
                     (''message'', js_or message (JStr ''An unexpected error has occurred.'')),
                     (''errors'', js_or errors JUndef),
                     (''status'', JNum (Num (statusOf name)))])),
                  (''application/json'', SendJson (JObj
                    [(''name'', js_or name (JStr ''InternalError'')),
                     (''message'', js_or message (JStr ''An unexpected error has occurred.'')),
                     (''errors'', js_or errors JUndef),
                     (''status'', JNum (Num (statusOf name)))]))]]"
  using assms by (simp add: handleError_def getProp_def Let_def)

text \<open>
  C4. For every error value (truthy, as the classifier ignores the others) that carries
  no status, the status the classifier sets on the response, and writes into the error
  record it renders, is the one the table gives for the error's name, and 500 for a
  name outside the table.
\<close>

theorem handleError_status_by_name:
  assumes "truthy err" and "member err ''status'' = Inr JUndef"
    and "member err ''name'' = Inr name"
  shows "\<exists>errObj. handleError errorsView err =
           Inr [LogError err,
                Status (JNum (Num (specStatusOf name))),
                Format [(''text/html'', RenderView errorsView (JObj errObj)),
                        (''application/json'', SendJson (JObj errObj))]]
         \<and> getProp errObj ''status'' = JNum (Num (specStatusOf name))"
proof -
  from member_truthy[OF assms(1)] obtain message errors where
    m: "member err ''message'' = Inr message" "member err ''errors'' = Inr errors"
    by blast
  have f: "\<not> truthy JUndef" by simp
  note h = handleError_truthy[OF assms(1) assms(3) m assms(2) f, of errorsView]
  show ?thesis unfolding h statusOf_spec
    by (intro exI conjI, rule refl) (simp add: getProp_def)
qed

theorem handleError_status_by_name_witness:
  "truthy (JObj [(''name'', JStr ''NotFoundError'')])
   \<and> member (JObj [(''name'', JStr ''NotFoundError'')]) ''status'' = Inr JUndef
   \<and> member (JObj [(''name'', JStr ''NotFoundError'')]) ''name'' = Inr (JStr ''NotFoundError'')
   \<and> specStatusOf (JStr ''NotFoundError'') = 404
   \<and> (\<exists>errObj. handleError (JStr ''errors'') (JObj [(''name'', JStr ''NotFoundError'')]) =
           Inr [LogError (JObj [(''name'', JStr ''NotFoundError'')]),
                Status (JNum (Num (specStatusOf (JStr ''NotFoundError'')))),
                Format [(''text/html'', RenderView (JStr ''errors'') (JObj errObj)),
                        (''application/json'', SendJson (JObj errObj))]]
         \<and> getProp errObj ''status'' = JNum (Num (specStatusOf (JStr ''NotFoundError''))))"
proof -
  let ?e = "JObj [(''name'', JStr ''NotFoundError'')]"
  have a: "truthy ?e" by simp
  have b: "member ?e ''status'' = Inr JUndef" by (simp add: getProp_def)
  have c: "member ?e ''name'' = Inr (JStr ''NotFoundError'')" by (simp add: getProp_def)
  have d: "specStatusOf (JStr ''NotFoundError'') = 404"
    by (simp add: specStatusOf_def specStatus_def)
  from a b c d handleError_status_by_name[OF a b c, of "JStr ''errors''"] show ?thesis by blast
qed

lemma handleError_falsy_primitives:
  "handleError errorsView (JBool False) = Inr []"
  "handleError errorsView (JNum (Num 0)) = Inr []"
  "handleError errorsView (JNum NaN) = Inr []"
  "handleError errorsView (JStr []) = Inr []"
  by (simp_all add: handleError_def)

text \<open>
  X3. On the falsy primitives false, 0, NaN and the empty string the function of
  \<open>handleError\<close> returns without logging, setting a status or writing a response.
\<close>

theorem handleError_noop_on_falsy_primitives:
  "handleError errorsView (JBool False) = Inr []
   \<and> handleError errorsView (JNum (Num 0)) = Inr []
   \<and> handleError errorsView (JNum NaN) = Inr []
   \<and> handleError errorsView (JStr []) = Inr []"
  by (simp add: handleError_falsy_primitives)

text \<open>
  C7 at null and undefined: the function reads \<open>err.name\<close> before it tests \<open>!err\<close>, and
  reading a property of null or undefined raises TypeError.
\<close>

theorem handleError_null_raises:
  "handleError errorsView JNull = Inl (NativeTypeError ''name'')
   \<and> handleError errorsView JUndef = Inl (NativeTypeError ''name'')"
  by (simp add: handleError_def)

section \<open>Properties of handle404\<close>

lemma chain_fakePromise: "chain fakePromise cs = []"
  by (induction cs) simp_all

text \<open>
  X1. On falsy data, with every media type registered, the function of \<open>handle404\<close>
  sets the status 404, hands \<open>res.format\<close> one not-found renderer per media type and
  the default 406 renderer, and returns the fake promise; however many callbacks are
  chained on that, none of them runs.
\<close>

theorem handle404_short_circuits:
  assumes "\<not> truthy data"
    and "notFoundEntries hs [] (case given opts of None \<Rightarrow> map fst hs | Some s \<Rightarrow> split_js CHR '' '' s)
           = Inr formatOpts"
  shows "handle404 hs opts data =
           (Awaitable fakePromise,
            [Status (JNum (Num 404)), Format (setProp ''default'' NotAcceptable formatOpts)])
         \<and> chain (fakePromise :: 'r thenable) cs = []"
  using assms by (simp add: handle404_def chain_fakePromise)

theorem handle404_short_circuits_witness:
  "\<not> truthy JNull
   \<and> notFoundEntries [(''html'', ''text/html''), (''json'', ''application/json'')] []
        (case given None of None \<Rightarrow> map fst [(''html'', ''text/html''), (''json'', ''application/json'')]
         | Some s \<Rightarrow> split_js CHR '' '' s)
       = Inr [(''text/html'', NotFoundVia ''html'' JUndef),
              (''application/json'', NotFoundVia ''json'' JUndef)]
   \<and> handle404 [(''html'', ''text/html''), (''json'', ''application/json'')] None JNull =
           (Awaitable (fakePromise :: nat thenable),
            [Status (JNum (Num 404)),
             Format (setProp ''default'' NotAcceptable
               [(''text/html'', NotFoundVia ''html'' JUndef),
                (''application/json'', NotFoundVia ''json'' JUndef)])])
   \<and> chain (fakePromise :: nat thenable) [\<lambda>v. 1, \<lambda>v. 2] = []"
proof -
  let ?hs = "[(''html'', ''text/html''), (''json'', ''application/json'')]"
  let ?fo = "[(''text/html'', NotFoundVia ''html'' JUndef),
              (''application/json'', NotFoundVia ''json'' JUndef)]"
  have a: "\<not> truthy JNull" by simp
  have b: "notFoundEntries ?hs []
        (case given None of None \<Rightarrow> map fst ?hs | Some s \<Rightarrow> split_js CHR '' '' s) = Inr ?fo"
    by simp
  from a b handle404_short_circuits[OF a b, where ?'r = nat and cs = "[\<lambda>v. 1, \<lambda>v. 2]"]
  show ?thesis by blast
qed

text \<open>
  X2. Called with the translator as \<open>this\<close>, the function of \<open>callNext\<close> passes truthy
  data through and, on falsy data, invokes the request's continuation and writes nothing.
\<close>

theorem callNext_bound_to_translator:
  "callNext TheTranslator data =
     (if truthy data then (Returned data, []) else (Returned JUndef, [Next]))"
  by (simp add: callNext_def)

text \<open>
  C6 at \<open>o.handle404.callNext()\<close>: on falsy data the returned function reads \<open>next\<close>
  from the function \<open>handle404\<close>, finds undefined, and calling it raises TypeError; the
  request's continuation is not invoked.
\<close>

theorem callNext_raises:
  "callNext TheHandle404Function JNull = (Raised (NativeTypeError ''self.next is not a function''), [])
   \<and> callNext TheHandle404Function JUndef = (Raised (NativeTypeError ''self.next is not a function''), [])"
  by (simp add: callNext_def)

section \<open>Properties of getBody\<close>

lemma fieldToNumber_not_positive: "\<not> js_gt (fieldToNumber v) (Num 0)"
  by (cases v rule: fieldToNumber.cases) simp_all

lemma filesLength_by_field: "\<not> js_gt (filesLength (FilesByField m)) (Num 0)"
  by (simp add: fieldToNumber_not_positive split: option.splits)

text \<open>
  C10. When \<open>req.files\<close> is an object keyed by field name, whatever its keys and however
  many, or an empty array, \<open>getBody\<close> resolves with the request body as it is, and does
  nothing else: no handler attached, no dispatch on a content type, no file read, no
  merge.
\<close>

theorem getBody_without_length:
  "getBody readFile (Some (FilesByField m)) body = (Resolved (JObj body), [])
   \<and> getBody readFile (Some (FilesArray [])) body = (Resolved (JObj body), [])"
proof -
  have a: "getBody readFile (Some (FilesByField m)) body = (Resolved (JObj body), [])"
    using filesLength_by_field[of m] by (simp add: getBody_def del: filesLength.simps)
  have b: "getBody readFile (Some (FilesArray [])) body = (Resolved (JObj body), [])"
    by (simp add: getBody_def)
  from a b show ?thesis by simp
qed

text \<open>
  C5 at a collision: the file holds \<open>{"a": "file"}\<close>, the body \<open>{a: "body"}\<close>; the
  merged object keeps the file's value, since the loop copies a body property only where
  the file has none.
\<close>

theorem getBody_file_value_wins:
  "getBody (\<lambda>p. Document [(''a'', JStr ''file'')])
     (Some (FilesArray [\<lparr>mimetype = ''application/json'', path = ''/tmp/upload''\<rparr>]))
     [(''a'', JStr ''body'')]
   = (Resolved (JObj [(''a'', JStr ''file'')]),
      [AttachErrorHandler, Dispatch ''application/json'', ReadFile ''/tmp/upload'', Merge])"
  by (simp add: getBody_def getProp_def undefinedAt_def)

text \<open>
  X7. An array of two or more uploaded files makes \<open>getBody\<close> raise before it returns
  the promise, and before any file is read.
\<close>

theorem getBody_many_files:
  "getBody readFile (Some (FilesArray (f # g # fs))) body =
     (Thrown (GenericError ''Only one file can be submitted at each time''), [AttachErrorHandler])"
  by (simp add: getBody_def)

section \<open>Properties of find\<close>

lemma isoMatch_empty: "isoMatch [] = None"
  by (simp add: isoMatch_def)

lemma revive_falsy: "\<not> truthy v \<Longrightarrow> revive v = v"
  by (cases v) (simp_all add: isoMatch_empty)

text \<open>
  C9. When the \<open>find\<close> parameter is present and parses to a falsy value, \<open>find()\<close>
  returns the empty object, as it does when the parameter is absent.
\<close>

theorem find_falsy_is_empty:
  assumes "q_find q = Some text" and "jsonParse text = Some v" and "\<not> truthy v"
  shows "find_js jsonParse q = Inr (JObj [])
         \<and> find_js jsonParse (q\<lparr>q_find := None\<rparr>) = Inr (JObj [])"
  using assms by (cases "text = []") (simp_all add: find_js_def revive_falsy)

theorem find_falsy_is_empty_witness:
  "q_find (noQuery\<lparr>q_find := Some ''null''\<rparr>) = Some ''null''
   \<and> exampleParse ''null'' = Some JNull
   \<and> \<not> truthy JNull
   \<and> find_js exampleParse (noQuery\<lparr>q_find := Some ''null''\<rparr>) = Inr (JObj [])
   \<and> find_js exampleParse (noQuery\<lparr>q_find := Some ''false''\<rparr>) = Inr (JObj [])
   \<and> find_js exampleParse (noQuery\<lparr>q_find := Some ''0''\<rparr>) = Inr (JObj [])
   \<and> find_js exampleParse (noQuery\<lparr>q_find := Some [CHR 0x22, CHR 0x22]\<rparr>) = Inr (JObj [])
   \<and> find_js exampleParse ((noQuery\<lparr>q_find := Some ''null''\<rparr>)\<lparr>q_find := None\<rparr>) = Inr (JObj [])"
proof -
  have a: "q_find (noQuery\<lparr>q_find := Some t\<rparr>) = Some t" for t by simp
  have b: "exampleParse ''null'' = Some JNull" "exampleParse ''false'' = Some (JBool False)"
    "exampleParse ''0'' = Some (JNum (Num 0))" "exampleParse [CHR 0x22, CHR 0x22] = Some (JStr [])"
    by (simp_all add: exampleParse_def)
  have c: "\<not> truthy JNull" "\<not> truthy (JBool False)" "\<not> truthy (JNum (Num 0))"
    "\<not> truthy (JStr [])"
    by simp_all
  note r1 = find_falsy_is_empty[of "noQuery\<lparr>q_find := Some ''null''\<rparr>" "''null''" exampleParse JNull,
      OF a b(1) c(1)]
  note r2 = find_falsy_is_empty[of "noQuery\<lparr>q_find := Some ''false''\<rparr>" "''false''" exampleParse
      "JBool False", OF a b(2) c(2)]
  note r3 = find_falsy_is_empty[of "noQuery\<lparr>q_find := Some ''0''\<rparr>" "''0''" exampleParse
      "JNum (Num 0)", OF a b(3) c(3)]
  note r4 = find_falsy_is_empty[of "noQuery\<lparr>q_find := Some [CHR 0x22, CHR 0x22]\<rparr>"
      "[CHR 0x22, CHR 0x22]" exampleParse "JStr []", OF a b(4) c(4)]
  from a[of "''null''"] b(1) c(1) r1 r2 r3 r4 show ?thesis by blast
qed

end
